theory Spec2Isabelle
  imports Main
begin

section \<open>password.py: password generation and strength scoring\<close>

text \<open>
  The module has three functions of interest: \<^verbatim>\<open>generate_password\<close>,
  \<^verbatim>\<open>generate_multiple_passwords\<close> and \<^verbatim>\<open>check_password_strength\<close>.
  The first two draw from the process-wide generator of Python's \<^verbatim>\<open>random\<close>
  module, so every function of the module is embedded in the same shape: it takes the
  state of the generator and returns its result together with the state it leaves.
  The interactive loop \<^verbatim>\<open>main\<close> only reads input, calls the three and prints;
  it is not modelled.

  A Python \<^verbatim>\<open>str\<close> is a sequence of code points. It is modelled as a
  \<open>string\<close> whose \<open>char\<close>s are the code points 0 to 255 (one \<open>char\<close> per code
  point, so \<open>length\<close> is Python's \<^verbatim>\<open>len\<close>); strings with code points above
  255 are outside the model. Python's \<^verbatim>\<open>int\<close> is \<open>int\<close>.
\<close>

subsection \<open>The pseudorandom source\<close>

text \<open>
  The generator is not part of the repository. Its state is modelled as the infinite
  tape of raw values it is going to produce; every behaviour of the real generator is
  one such tape, and the theorems below hold for all of them.
  \<^verbatim>\<open>_randbelow(n)\<close> consumes one raw value and returns a number below \<open>n\<close>.
\<close>

type_synonym rng = "nat \<Rightarrow> nat"

definition randbelow :: "nat \<Rightarrow> rng \<Rightarrow> nat \<times> rng" where
  "randbelow n g = (g 0 mod n, \<lambda>i. g (Suc i))"

datatype error = ValueError string | IndexError string

text \<open>
  \<^verbatim>\<open>random.choice(seq)\<close>:
  \<^verbatim>\<open>
    if not len(seq):
        raise IndexError('Cannot choose from an empty sequence')
    return seq[self._randbelow(len(seq))]
  \<close>
\<close>

definition choice :: "'a list \<Rightarrow> rng \<Rightarrow> (error + 'a) \<times> rng" where
  "choice seq g =
     (if length seq = 0 then (Inl (IndexError ''Cannot choose from an empty sequence''), g)
      else (case randbelow (length seq) g of (i, g') \<Rightarrow> (Inr (seq ! i), g')))"

subsection \<open>Constants of Python's string module\<close>

definition ascii_lowercase :: string where
  "ascii_lowercase = ''abcdefghijklmnopqrstuvwxyz''"

definition ascii_uppercase :: string where
  "ascii_uppercase = ''ABCDEFGHIJKLMNOPQRSTUVWXYZ''"

definition digits :: string where
  "digits = ''0123456789''"

subsection \<open>generate_password\<close>

text \<open>
  The local variable \<^verbatim>\<open>character_pool\<close> as it stands after the four
  \<^verbatim>\<open>if\<close> statements. The parameters are in the order of the signature:
  \<^verbatim>\<open>use_uppercase, use_lowercase, use_digits, use_symbols\<close>.
\<close>

definition character_pool :: "bool \<Rightarrow> bool \<Rightarrow> bool \<Rightarrow> bool \<Rightarrow> string" where
  "character_pool use_uppercase use_lowercase use_digits use_symbols =
     (let pool = [];
          pool = (if use_lowercase then pool @ ascii_lowercase else pool);
          pool = (if use_uppercase then pool @ ascii_uppercase else pool);
          pool = (if use_digits then pool @ digits else pool);
          pool = (if use_symbols then pool @ ''!@#$%^&*()_+-=[]{}|;:,.<>?'' else pool)
      in pool)"

text \<open>
  \<^verbatim>\<open>''.join(random.choice(character_pool) for _ in range(length))\<close>: one draw per
  iteration, in order; an exception in a draw ends the loop.
\<close>

fun draw_chars :: "string \<Rightarrow> nat \<Rightarrow> rng \<Rightarrow> (error + string) \<times> rng" where
  "draw_chars pool 0 g = (Inr [], g)"
| "draw_chars pool (Suc n) g =
     (case choice pool g of
        (Inl e, g') \<Rightarrow> (Inl e, g')
      | (Inr c, g') \<Rightarrow>
          (case draw_chars pool n g' of
             (Inl e, g'') \<Rightarrow> (Inl e, g'')
           | (Inr cs, g'') \<Rightarrow> (Inr (c # cs), g'')))"

text \<open>\<^verbatim>\<open>range(length)\<close> is empty for a length \<open>len \<le> 0\<close>, hence \<open>nat len\<close> draws
  (the parameter \<^verbatim>\<open>length\<close> is written \<open>len\<close>).\<close>

definition generate_password ::
  "int \<Rightarrow> bool \<Rightarrow> bool \<Rightarrow> bool \<Rightarrow> bool \<Rightarrow> rng \<Rightarrow> (error + string) \<times> rng" where
  "generate_password len use_uppercase use_lowercase use_digits use_symbols g =
     (let pool = character_pool use_uppercase use_lowercase use_digits use_symbols
      in if pool = []
         then (Inl (ValueError ''At least one character type must be selected!''), g)
         else draw_chars pool (nat len) g)"

text \<open>
  Binding of the signature's default values:
  \<^verbatim>\<open>length=12, use_uppercase=True, use_lowercase=True, use_digits=True, use_symbols=True\<close>.
  An argument the caller leaves out is \<open>None\<close>.
\<close>

definition arg_or :: "'a \<Rightarrow> 'a option \<Rightarrow> 'a" where
  "arg_or d a = (case a of None \<Rightarrow> d | Some v \<Rightarrow> v)"

definition generate_password_call ::
  "int option \<Rightarrow> bool option \<Rightarrow> bool option \<Rightarrow> bool option \<Rightarrow> bool option \<Rightarrow> rng
     \<Rightarrow> (error + string) \<times> rng" where
  "generate_password_call len use_uppercase use_lowercase use_digits use_symbols g =
     generate_password (arg_or 12 len) (arg_or True use_uppercase) (arg_or True use_lowercase)
       (arg_or True use_digits) (arg_or True use_symbols) g"

subsection \<open>generate_multiple_passwords\<close>

text \<open>
  \<^verbatim>\<open>**kwargs\<close>: the keyword arguments that \<^verbatim>\<open>generate_password\<close> accepts
  besides \<^verbatim>\<open>length\<close>, each present or absent. (Any other keyword, or a second
  \<^verbatim>\<open>length\<close>, is a \<^verbatim>\<open>TypeError\<close> of the call and outside the model.)
\<close>

record kwargs =
  kw_use_uppercase :: "bool option"
  kw_use_lowercase :: "bool option"
  kw_use_digits :: "bool option"
  kw_use_symbols :: "bool option"

text \<open>
  The \<^verbatim>\<open>for _ in range(count)\<close> loop with the list \<^verbatim>\<open>passwords\<close> it appends
  to; each iteration is \<^verbatim>\<open>passwords.append(generate_password(length, **kwargs))\<close>,
  and an exception of that call leaves the loop and the function.
\<close>

fun append_passwords ::
  "nat \<Rightarrow> int \<Rightarrow> kwargs \<Rightarrow> string list \<Rightarrow> rng \<Rightarrow> (error + string list) \<times> rng" where
  "append_passwords 0 len kw passwords g = (Inr passwords, g)"
| "append_passwords (Suc n) len kw passwords g =
     (case generate_password_call (Some len) (kw_use_uppercase kw) (kw_use_lowercase kw)
             (kw_use_digits kw) (kw_use_symbols kw) g of
        (Inl e, g') \<Rightarrow> (Inl e, g')
      | (Inr password, g') \<Rightarrow> append_passwords n len kw (passwords @ [password]) g')"

definition generate_multiple_passwords ::
  "int \<Rightarrow> int \<Rightarrow> kwargs \<Rightarrow> rng \<Rightarrow> (error + string list) \<times> rng" where
  "generate_multiple_passwords count len kw g = append_passwords (nat count) len kw [] g"

text \<open>Binding of the defaults \<^verbatim>\<open>count=5, length=12\<close>.\<close>

definition generate_multiple_passwords_call ::
  "int option \<Rightarrow> int option \<Rightarrow> kwargs \<Rightarrow> rng \<Rightarrow> (error + string list) \<times> rng" where
  "generate_multiple_passwords_call count len kw g =
     generate_multiple_passwords (arg_or 5 count) (arg_or 12 len) kw g"

subsection \<open>check_password_strength\<close>

text \<open>
  \<^verbatim>\<open>c.islower()\<close>, \<^verbatim>\<open>c.isupper()\<close> and \<^verbatim>\<open>c.isdigit()\<close> on a string of one
  character, as CPython answers on the code points 0 to 255: besides \<^verbatim>\<open>a-z\<close>,
  \<^verbatim>\<open>A-Z\<close> and \<^verbatim>\<open>0-9\<close> they accept the lowercase and uppercase letters of the
  Latin-1 supplement and the superscript digits.
\<close>

definition islower :: "char \<Rightarrow> bool" where
  "islower c =
     (let n = (of_char c :: nat)
      in (97 \<le> n \<and> n \<le> 122) \<or> n = 170 \<or> n = 181 \<or> n = 186
         \<or> (223 \<le> n \<and> n \<le> 246) \<or> (248 \<le> n \<and> n \<le> 255))"

definition isupper :: "char \<Rightarrow> bool" where
  "isupper c =
     (let n = (of_char c :: nat)
      in (65 \<le> n \<and> n \<le> 90) \<or> (192 \<le> n \<and> n \<le> 214) \<or> (216 \<le> n \<and> n \<le> 222))"

definition isdigit :: "char \<Rightarrow> bool" where
  "isdigit c =
     (let n = (of_char c :: nat)
      in (48 \<le> n \<and> n \<le> 57) \<or> n = 178 \<or> n = 179 \<or> n = 185)"

text \<open>The dictionary the function returns, one field per key.\<close>

record strength_report =
  score :: int
  strength :: string
  length_field :: nat
  has_lowercase :: bool
  has_uppercase :: bool
  has_digits :: bool
  has_symbols :: bool

definition strength_levels :: "int \<rightharpoonup> string" where
  "strength_levels = [1 \<mapsto> ''Weak'', 2 \<mapsto> ''Fair'', 3 \<mapsto> ''Good'', 4 \<mapsto> ''Strong'']"

text \<open>\<^verbatim>\<open>d.get(key, default)\<close>\<close>

definition dict_get :: "('k \<rightharpoonup> 'v) \<Rightarrow> 'k \<Rightarrow> 'v \<Rightarrow> 'v" where
  "dict_get d k dflt = (case d k of None \<Rightarrow> dflt | Some v \<Rightarrow> v)"

text \<open>
  \<^verbatim>\<open>any(... for c in password)\<close> is \<open>list_ex\<close>; \<^verbatim>\<open>sum\<close> of a list of
  \<^verbatim>\<open>bool\<close>s adds 1 for each \<^verbatim>\<open>True\<close>. The function makes no draw: the
  generator is returned as it came.
\<close>

definition check_password_strength :: "string \<Rightarrow> rng \<Rightarrow> strength_report \<times> rng" where
  "check_password_strength password g =
     (let has_lower = list_ex islower password;
          has_upper = list_ex isupper password;
          has_digit = list_ex isdigit password;
          has_symbol = list_ex (\<lambda>c. c \<in> set ''!@#$%^&*()_+-=[]{}|;:,.<>?'') password;
          score = sum_list (map of_bool [has_lower, has_upper, has_digit, has_symbol])
      in (\<lparr>score = score,
           strength = dict_get strength_levels score ''Very Weak'',
           length_field = length password,
           has_lowercase = has_lower,
           has_uppercase = has_upper,
           has_digits = has_digit,
           has_symbols = has_symbol\<rparr>, g))"

subsection \<open>Concrete inputs used below\<close>

definition tape0 :: rng where
  "tape0 = (\<lambda>i. 7 * i + 3)"

definition no_kwargs :: kwargs where
  "no_kwargs = \<lparr>kw_use_uppercase = None, kw_use_lowercase = None,
                 kw_use_digits = None, kw_use_symbols = None\<rparr>"

definition all_classes :: kwargs where
  "all_classes = \<lparr>kw_use_uppercase = Some True, kw_use_lowercase = Some True,
                   kw_use_digits = Some True, kw_use_symbols = Some True\<rparr>"

definition no_classes :: kwargs where
  "no_classes = \<lparr>kw_use_uppercase = Some False, kw_use_lowercase = Some False,
                  kw_use_digits = Some False, kw_use_symbols = Some False\<rparr>"

section \<open>Properties\<close>

subsection \<open>Auxiliary facts\<close>

lemma character_pool_Nil_iff:
  "character_pool up lo di sy = [] \<longleftrightarrow> \<not> up \<and> \<not> lo \<and> \<not> di \<and> \<not> sy"
  by (simp add: character_pool_def ascii_lowercase_def ascii_uppercase_def digits_def)

lemma set_character_pool:
  "set (character_pool up lo di sy) =
     (if lo then set ascii_lowercase else {}) \<union> (if up then set ascii_uppercase else {}) \<union>
     (if di then set digits else {}) \<union> (if sy then set ''!@#$%^&*()_+-=[]{}|;:,.<>?'' else {})"
  by (simp add: character_pool_def Let_def Un_assoc)

lemma choice_nonempty:
  assumes "pool \<noteq> []"
  shows "\<exists>c g'. choice pool g = (Inr c, g') \<and> c \<in> set pool"
  using assms by (simp add: choice_def randbelow_def)

lemma draw_chars_nonempty:
  assumes "pool \<noteq> []"
  shows "\<exists>p g'. draw_chars pool n g = (Inr p, g') \<and> length p = n \<and> set p \<subseteq> set pool"
proof (induction n arbitrary: g)
  case 0
  show ?case by simp
next
  case (Suc n)
  from choice_nonempty [OF assms] obtain c g1
    where c: "choice pool g = (Inr c, g1)" "c \<in> set pool" by blast
  from Suc.IH obtain p g2
    where p: "draw_chars pool n g1 = (Inr p, g2)" "length p = n" "set p \<subseteq> set pool" by blast
  from c p show ?case by simp
qed

lemma generate_password_selected:
  assumes "up \<or> lo \<or> di \<or> sy"
  shows "\<exists>p g'. generate_password len up lo di sy g = (Inr p, g') \<and> length p = nat len
           \<and> set p \<subseteq> set (character_pool up lo di sy)"
proof -
  from assms have ne: "character_pool up lo di sy \<noteq> []"
    by (simp add: character_pool_Nil_iff)
  from draw_chars_nonempty [OF ne, of "nat len" g] ne show ?thesis
    by (simp add: generate_password_def)
qed

lemma generate_password_unselected:
  "generate_password len False False False False g =
     (Inl (ValueError ''At least one character type must be selected!''), g)"
  by (simp add: generate_password_def character_pool_def)

lemma append_passwords_selected:
  assumes "arg_or True (kw_use_uppercase kw) \<or> arg_or True (kw_use_lowercase kw)
             \<or> arg_or True (kw_use_digits kw) \<or> arg_or True (kw_use_symbols kw)"
  shows "\<exists>ps g'. append_passwords n len kw acc g = (Inr (acc @ ps), g') \<and> length ps = n
           \<and> (\<forall>p \<in> set ps. length p = nat len
                 \<and> set p \<subseteq> set (character_pool (arg_or True (kw_use_uppercase kw))
                       (arg_or True (kw_use_lowercase kw)) (arg_or True (kw_use_digits kw))
                       (arg_or True (kw_use_symbols kw))))"
proof (induction n arbitrary: acc g)
  case 0
  show ?case by simp
next
  case (Suc n)
  from generate_password_selected [OF assms, of len g] obtain p g1
    where p: "generate_password len (arg_or True (kw_use_uppercase kw))
                (arg_or True (kw_use_lowercase kw)) (arg_or True (kw_use_digits kw))
                (arg_or True (kw_use_symbols kw)) g = (Inr p, g1)"
      "length p = nat len"
      "set p \<subseteq> set (character_pool (arg_or True (kw_use_uppercase kw))
                 (arg_or True (kw_use_lowercase kw)) (arg_or True (kw_use_digits kw))
                 (arg_or True (kw_use_symbols kw)))"
    by blast
  from Suc.IH [of "acc @ [p]" g1] obtain ps g2
    where ps: "append_passwords n len kw (acc @ [p]) g1 = (Inr ((acc @ [p]) @ ps), g2)"
      "length ps = n"
      "\<forall>q \<in> set ps. length q = nat len
          \<and> set q \<subseteq> set (character_pool (arg_or True (kw_use_uppercase kw))
                (arg_or True (kw_use_lowercase kw)) (arg_or True (kw_use_digits kw))
                (arg_or True (kw_use_symbols kw)))"
    by blast
  have "append_passwords (Suc n) len kw acc g = (Inr (acc @ (p # ps)), g2)"
    using p(1) ps(1) by (simp add: generate_password_call_def arg_or_def)
  moreover have "length (p # ps) = Suc n"
    using ps(2) by simp
  moreover have "\<forall>q \<in> set (p # ps). length q = nat len
          \<and> set q \<subseteq> set (character_pool (arg_or True (kw_use_uppercase kw))
                (arg_or True (kw_use_lowercase kw)) (arg_or True (kw_use_digits kw))
                (arg_or True (kw_use_symbols kw)))"
    using p(2,3) ps(3) by simp
  ultimately show ?case by blast
qed

lemma append_passwords_same_flags:
  assumes "arg_or True (kw_use_uppercase kw) = arg_or True (kw_use_uppercase kw')"
    and "arg_or True (kw_use_lowercase kw) = arg_or True (kw_use_lowercase kw')"
    and "arg_or True (kw_use_digits kw) = arg_or True (kw_use_digits kw')"
    and "arg_or True (kw_use_symbols kw) = arg_or True (kw_use_symbols kw')"
  shows "append_passwords n len kw acc g = append_passwords n len kw' acc g"
proof (induction n arbitrary: acc g)
  case 0
  show ?case by simp
next
  case (Suc n)
  show ?case
    using assms by (simp add: generate_password_call_def Suc.IH split: prod.splits sum.splits)
qed

lemma report_fields:
  "has_lowercase (fst (check_password_strength s g)) = list_ex islower s"
  "has_uppercase (fst (check_password_strength s g)) = list_ex isupper s"
  "has_digits (fst (check_password_strength s g)) = list_ex isdigit s"
  "has_symbols (fst (check_password_strength s g))
     = list_ex (\<lambda>c. c \<in> set ''!@#$%^&*()_+-=[]{}|;:,.<>?'') s"
  "length_field (fst (check_password_strength s g)) = length s"
  "score (fst (check_password_strength s g))
     = of_bool (list_ex islower s) + of_bool (list_ex isupper s) + of_bool (list_ex isdigit s)
       + of_bool (list_ex (\<lambda>c. c \<in> set ''!@#$%^&*()_+-=[]{}|;:,.<>?'') s)"
  "strength (fst (check_password_strength s g))
     = dict_get strength_levels (score (fst (check_password_strength s g))) ''Very Weak''"
  "snd (check_password_strength s g) = g"
  by (simp_all add: check_password_strength_def Let_def del: set_simps)

text \<open>
  The model runs: with only lowercase selected and the tape \<open>3, 10, 17, 24, 31, \<dots>\<close>
  the draws are the letters at the indices 3, 10, 17, 24 and 31 mod 26 = 5.
\<close>

lemma generate_password_example:
  "fst (generate_password 5 False True False False tape0) = Inr ''dkryf''"
  by code_simp

lemma generate_multiple_passwords_example:
  "fst (generate_multiple_passwords 2 3 all_classes tape0) = Inr [''dkr'', ''yFM'']"
  by code_simp

subsection \<open>The character pool\<close>

text \<open>
  C4. The pool is the concatenation of the selected alphabets in the order lowercase,
  uppercase, digits, symbols, with the unselected ones left out; with only lowercase and
  digits selected it is the string \<^verbatim>\<open>abcdefghijklmnopqrstuvwxyz0123456789\<close>.
\<close>

theorem character_pool_concatenation:
  "character_pool use_uppercase use_lowercase use_digits use_symbols =
     (if use_lowercase then ''abcdefghijklmnopqrstuvwxyz'' else []) @
     (if use_uppercase then ''ABCDEFGHIJKLMNOPQRSTUVWXYZ'' else []) @
     (if use_digits then ''0123456789'' else []) @
     (if use_symbols then ''!@#$%^&*()_+-=[]{}|;:,.<>?'' else [])
   \<and> character_pool False True True False = ''abcdefghijklmnopqrstuvwxyz0123456789''"
  by (simp add: character_pool_def ascii_lowercase_def ascii_uppercase_def digits_def)

text \<open>
  C5, as the specification states it, fails: the symbols alphabet is the literal
  \<^verbatim>\<open>!@#$%^&*()_+-=[]{}|;:,.<>?\<close>, but it has 26 characters, not 27.
\<close>

theorem symbols_alphabet_not_27:
  "character_pool False False False True = ''!@#$%^&*()_+-=[]{}|;:,.<>?''
   \<and> length (character_pool False False False True) \<noteq> 27"
  by (simp add: character_pool_def)

text \<open>
  C5, amended. The pool with only symbols selected is the literal
  \<^verbatim>\<open>!@#$%^&*()_+-=[]{}|;:,.<>?\<close> in that order, the scorer's symbol flag is
  membership of some character of the input in the same literal, and the literal has
  26 characters.
\<close>

theorem symbols_alphabet_26:
  "character_pool False False False True = ''!@#$%^&*()_+-=[]{}|;:,.<>?''
   \<and> has_symbols (fst (check_password_strength s g)) = (set s \<inter> set ''!@#$%^&*()_+-=[]{}|;:,.<>?'' \<noteq> {})
   \<and> length ''!@#$%^&*()_+-=[]{}|;:,.<>?'' = 26
   \<and> length (character_pool False False False True) = 26"
proof -
  have "has_symbols (fst (check_password_strength s g))
          = (\<exists>c \<in> set s. c \<in> set ''!@#$%^&*()_+-=[]{}|;:,.<>?'')"
    by (simp only: report_fields list_ex_iff)
  then have "has_symbols (fst (check_password_strength s g)) = (set s \<inter> set ''!@#$%^&*()_+-=[]{}|;:,.<>?'' \<noteq> {})"
    by blast
  moreover have "character_pool False False False True = ''!@#$%^&*()_+-=[]{}|;:,.<>?''"
    by (simp add: character_pool_def)
  moreover have "length ''!@#$%^&*()_+-=[]{}|;:,.<>?'' = 26"
    by simp
  ultimately show ?thesis by simp
qed

subsection \<open>generate_password\<close>

text \<open>
  C1. With at least one class flag true and a length \<open>L \<ge> 0\<close>, the call returns a
  password of exactly \<open>L\<close> characters, each from the union of the alphabets of the
  selected classes.
\<close>

theorem generate_password_length_and_alphabet:
  assumes "use_uppercase \<or> use_lowercase \<or> use_digits \<or> use_symbols" and "0 \<le> L"
  shows "\<exists>p g'. generate_password L use_uppercase use_lowercase use_digits use_symbols g
                 = (Inr p, g')
           \<and> int (length p) = L
           \<and> set p \<subseteq> (if use_lowercase then set ''abcdefghijklmnopqrstuvwxyz'' else {})
                     \<union> (if use_uppercase then set ''ABCDEFGHIJKLMNOPQRSTUVWXYZ'' else {})
                     \<union> (if use_digits then set ''0123456789'' else {})
                     \<union> (if use_symbols then set ''!@#$%^&*()_+-=[]{}|;:,.<>?'' else {})"
proof -
  from generate_password_selected [OF assms(1), of L g] obtain p g'
    where p: "generate_password L use_uppercase use_lowercase use_digits use_symbols g
                = (Inr p, g')"
      "length p = nat L"
      "set p \<subseteq> set (character_pool use_uppercase use_lowercase use_digits use_symbols)"
    by blast
  from p(2) assms(2) have "int (length p) = L" by simp
  moreover from p(3)
  have "set p \<subseteq> (if use_lowercase then set ''abcdefghijklmnopqrstuvwxyz'' else {})
                \<union> (if use_uppercase then set ''ABCDEFGHIJKLMNOPQRSTUVWXYZ'' else {})
                \<union> (if use_digits then set ''0123456789'' else {})
                \<union> (if use_symbols then set ''!@#$%^&*()_+-=[]{}|;:,.<>?'' else {})"
    unfolding set_character_pool ascii_lowercase_def ascii_uppercase_def digits_def .
  ultimately show ?thesis using p(1) by blast
qed

theorem generate_password_length_and_alphabet_witness:
  "(False \<or> True \<or> True \<or> False) \<and> (0::int) \<le> 12
   \<and> (\<exists>p g'. generate_password 12 False True True False tape0 = (Inr p, g')
          \<and> int (length p) = 12
          \<and> set p \<subseteq> set ''abcdefghijklmnopqrstuvwxyz'' \<union> set ''0123456789'')"
  using generate_password_length_and_alphabet [of False True True False 12 tape0]
  by (simp del: set_simps)

text \<open>
  C2, as the specification states it, fails on the message: with all four flags false
  the call raises \<^verbatim>\<open>ValueError\<close> with the text
  \<^verbatim>\<open>At least one character type must be selected!\<close>, which is not the text
  \<^verbatim>\<open>at least one character class must be selected\<close>.
\<close>

theorem generate_password_error_message:
  "fst (generate_password 12 False False False False tape0) = Inl (ValueError ''At least one character type must be selected!'')
   \<and> fst (generate_password 12 False False False False tape0)
       \<noteq> Inl (ValueError ''at least one character class must be selected'')"
  by (simp add: generate_password_unselected)

text \<open>
  C2, amended. The call raises \<^verbatim>\<open>ValueError\<close> with the message
  \<^verbatim>\<open>At least one character type must be selected!\<close> exactly when all four flags
  are false, whatever the length, and then makes no draw; in every other case it returns
  a password, so it raises nothing else.
\<close>

theorem generate_password_error_iff:
  "(generate_password len use_uppercase use_lowercase use_digits use_symbols g
      = (Inl (ValueError ''At least one character type must be selected!''), g))
     = (\<not> use_uppercase \<and> \<not> use_lowercase \<and> \<not> use_digits \<and> \<not> use_symbols)
   \<and> (\<exists>p g'. generate_password len use_uppercase use_lowercase use_digits use_symbols g
          = (Inr p, g'))
     = (use_uppercase \<or> use_lowercase \<or> use_digits \<or> use_symbols)"
proof (cases "use_uppercase \<or> use_lowercase \<or> use_digits \<or> use_symbols")
  case True
  from generate_password_selected [OF True, of len g] obtain p g'
    where "generate_password len use_uppercase use_lowercase use_digits use_symbols g
             = (Inr p, g')"
    by blast
  with True show ?thesis by auto
next
  case False
  then show ?thesis by (simp add: generate_password_unselected)
qed

theorem generate_password_error_iff_witness:
  "generate_password 12 False False False False tape0 = (Inl (ValueError ''At least one character type must be selected!''), tape0)
   \<and> (\<exists>p g'. generate_password (- 3) True False False False tape0 = (Inr p, g'))"
  using generate_password_error_iff [of 12 False False False False tape0]
    generate_password_error_iff [of "- 3" True False False False tape0]
  by simp

text \<open>
  C9. For every length \<open>len \<le> 0\<close>, negative ones included, with at least one class
  flag true, the call raises nothing and returns the empty string (without a draw).
\<close>

theorem generate_password_nonpositive_length:
  assumes "use_uppercase \<or> use_lowercase \<or> use_digits \<or> use_symbols" and "len \<le> 0"
  shows "generate_password len use_uppercase use_lowercase use_digits use_symbols g
           = (Inr [], g)"
  using assms by (simp add: generate_password_def character_pool_Nil_iff)

theorem generate_password_nonpositive_length_witness:
  "(True \<or> False \<or> False \<or> True) \<and> (- 3 :: int) \<le> 0
   \<and> generate_password (- 3) True False False True tape0 = (Inr [], tape0)"
  using generate_password_nonpositive_length [of True False False True "- 3" tape0]
  by simp

subsection \<open>generate_multiple_passwords\<close>

text \<open>
  C6, as the specification states it, fails where its two last clauses meet: with a
  count of 0 and no class selected the call returns the empty list and raises nothing,
  because the check for an empty pool is made inside each iteration.
\<close>

theorem generate_multiple_passwords_zero_count_no_classes:
  "fst (generate_multiple_passwords 0 12 no_classes tape0) = Inr []
   \<and> fst (generate_multiple_passwords 0 12 no_classes tape0) \<noteq> Inl (ValueError ''At least one character type must be selected!'')"
  by (simp add: generate_multiple_passwords_def)

text \<open>
  C6, amended. When the configuration selects at least one class, the call returns a
  list of exactly \<open>count\<close> passwords (none for a negative count), each of the requested
  length and made of characters of the selected classes. When \<open>count \<le> 0\<close> it returns
  the empty list, whatever the configuration. When the configuration selects no class
  and \<open>count \<ge> 1\<close>, it raises the very error that \<^verbatim>\<open>generate_password\<close> raises for that
  configuration, before any draw.
\<close>

theorem generate_multiple_passwords_batch:
  "(arg_or True (kw_use_uppercase kw) \<or> arg_or True (kw_use_lowercase kw)
      \<or> arg_or True (kw_use_digits kw) \<or> arg_or True (kw_use_symbols kw) \<longrightarrow>
      (\<exists>ps g'. generate_multiple_passwords count len kw g = (Inr ps, g')
         \<and> length ps = nat count
         \<and> (\<forall>p \<in> set ps. length p = nat len
               \<and> set p \<subseteq> (if arg_or True (kw_use_lowercase kw)
                            then set ''abcdefghijklmnopqrstuvwxyz'' else {})
                         \<union> (if arg_or True (kw_use_uppercase kw)
                            then set ''ABCDEFGHIJKLMNOPQRSTUVWXYZ'' else {})
                         \<union> (if arg_or True (kw_use_digits kw)
                            then set ''0123456789'' else {})
                         \<union> (if arg_or True (kw_use_symbols kw)
                            then set ''!@#$%^&*()_+-=[]{}|;:,.<>?'' else {}))))
   \<and> (count \<le> 0 \<longrightarrow> generate_multiple_passwords count len kw g = (Inr [], g))
   \<and> (\<not> arg_or True (kw_use_uppercase kw) \<and> \<not> arg_or True (kw_use_lowercase kw)
      \<and> \<not> arg_or True (kw_use_digits kw) \<and> \<not> arg_or True (kw_use_symbols kw)
      \<and> 1 \<le> count \<longrightarrow>
      generate_multiple_passwords count len kw g = (Inl (ValueError ''At least one character type must be selected!''), g)
      \<and> generate_password len (arg_or True (kw_use_uppercase kw))
            (arg_or True (kw_use_lowercase kw)) (arg_or True (kw_use_digits kw))
            (arg_or True (kw_use_symbols kw)) g = (Inl (ValueError ''At least one character type must be selected!''), g))"
proof (intro conjI impI)
  assume sel: "arg_or True (kw_use_uppercase kw) \<or> arg_or True (kw_use_lowercase kw)
      \<or> arg_or True (kw_use_digits kw) \<or> arg_or True (kw_use_symbols kw)"
  from append_passwords_selected [OF sel, of "nat count" len "[]" g]
  show "\<exists>ps g'. generate_multiple_passwords count len kw g = (Inr ps, g')
         \<and> length ps = nat count
         \<and> (\<forall>p \<in> set ps. length p = nat len
               \<and> set p \<subseteq> (if arg_or True (kw_use_lowercase kw)
                            then set ''abcdefghijklmnopqrstuvwxyz'' else {})
                         \<union> (if arg_or True (kw_use_uppercase kw)
                            then set ''ABCDEFGHIJKLMNOPQRSTUVWXYZ'' else {})
                         \<union> (if arg_or True (kw_use_digits kw)
                            then set ''0123456789'' else {})
                         \<union> (if arg_or True (kw_use_symbols kw)
                            then set ''!@#$%^&*()_+-=[]{}|;:,.<>?'' else {}))"
    unfolding generate_multiple_passwords_def set_character_pool
      ascii_lowercase_def ascii_uppercase_def digits_def
    by simp
next
  assume "count \<le> 0"
  then show "generate_multiple_passwords count len kw g = (Inr [], g)"
    by (simp add: generate_multiple_passwords_def)
next
  assume h: "\<not> arg_or True (kw_use_uppercase kw) \<and> \<not> arg_or True (kw_use_lowercase kw)
      \<and> \<not> arg_or True (kw_use_digits kw) \<and> \<not> arg_or True (kw_use_symbols kw)
      \<and> 1 \<le> count"
  then obtain n where n: "nat count = Suc n"
    by (cases "nat count") auto
  from h show "generate_multiple_passwords count len kw g = (Inl (ValueError ''At least one character type must be selected!''), g)"
    by (simp add: generate_multiple_passwords_def n generate_password_call_def
        generate_password_unselected)
  from h show "generate_password len (arg_or True (kw_use_uppercase kw))
            (arg_or True (kw_use_lowercase kw)) (arg_or True (kw_use_digits kw))
            (arg_or True (kw_use_symbols kw)) g = (Inl (ValueError ''At least one character type must be selected!''), g)"
    by (simp add: generate_password_unselected)
qed

theorem generate_multiple_passwords_batch_witness:
  "(\<exists>ps g'. generate_multiple_passwords 5 12 all_classes tape0 = (Inr ps, g')
      \<and> length ps = 5
      \<and> (\<forall>p \<in> set ps. length p = 12
            \<and> set p \<subseteq> set ''abcdefghijklmnopqrstuvwxyz'' \<union> set ''ABCDEFGHIJKLMNOPQRSTUVWXYZ''
                      \<union> set ''0123456789'' \<union> set ''!@#$%^&*()_+-=[]{}|;:,.<>?''))
   \<and> generate_multiple_passwords 0 12 no_classes tape0 = (Inr [], tape0)
   \<and> generate_multiple_passwords 2 12 no_classes tape0 = (Inl (ValueError ''At least one character type must be selected!''), tape0)"
  using generate_multiple_passwords_batch [of all_classes 5 12 tape0]
    generate_multiple_passwords_batch [of no_classes 0 12 tape0]
    generate_multiple_passwords_batch [of no_classes 2 12 tape0]
  by (simp add: all_classes_def no_classes_def arg_or_def del: set_simps)

subsection \<open>Default arguments\<close>

text \<open>
  C10. Called without arguments, \<^verbatim>\<open>generate_password\<close> runs with length 12 and all
  four classes enabled; \<^verbatim>\<open>generate_multiple_passwords\<close> runs with count 5 and
  length 12 (whatever keywords it is given) and, given no keywords, generates as with
  all four classes enabled.
\<close>

theorem default_arguments:
  "generate_password_call None None None None None g = generate_password 12 True True True True g
   \<and> generate_multiple_passwords_call None None kw g = generate_multiple_passwords 5 12 kw g
   \<and> generate_multiple_passwords_call None None no_kwargs g
       = generate_multiple_passwords 5 12 all_classes g"
proof -
  have "append_passwords (nat 5) 12 no_kwargs [] g = append_passwords (nat 5) 12 all_classes [] g"
    by (rule append_passwords_same_flags) (simp_all add: no_kwargs_def all_classes_def arg_or_def)
  then show ?thesis
    by (simp add: generate_password_call_def generate_multiple_passwords_call_def
        generate_multiple_passwords_def arg_or_def)
qed

subsection \<open>check_password_strength\<close>

text \<open>
  C3. For every string the report's four flags say whether the string contains a
  lowercase letter, an uppercase letter, a digit (the three in the sense of Python's
  \<^verbatim>\<open>islower\<close>, \<^verbatim>\<open>isupper\<close>, \<^verbatim>\<open>isdigit\<close>) and a character of the fixed
  symbol set; the score is the number of flags that are true, hence between 0 and 4;
  and the report carries the length of the string.
\<close>

theorem check_password_strength_report:
  "has_lowercase (fst (check_password_strength s g)) = (\<exists>c \<in> set s. islower c)
   \<and> has_uppercase (fst (check_password_strength s g)) = (\<exists>c \<in> set s. isupper c)
   \<and> has_digits (fst (check_password_strength s g)) = (\<exists>c \<in> set s. isdigit c)
   \<and> has_symbols (fst (check_password_strength s g))
       = (\<exists>c \<in> set s. c \<in> set ''!@#$%^&*()_+-=[]{}|;:,.<>?'')
   \<and> score (fst (check_password_strength s g))
       = int (length (filter (\<lambda>b. b)
           [has_lowercase (fst (check_password_strength s g)),
            has_uppercase (fst (check_password_strength s g)),
            has_digits (fst (check_password_strength s g)),
            has_symbols (fst (check_password_strength s g))]))
   \<and> 0 \<le> score (fst (check_password_strength s g))
   \<and> score (fst (check_password_strength s g)) \<le> 4
   \<and> length_field (fst (check_password_strength s g)) = length s"
proof -
  have count: "of_bool a + of_bool b + of_bool c + of_bool d
                 = int (length (filter (\<lambda>b. b) [a, b, c, d]))" for a b c d
    by simp
  have bounds: "0 \<le> (of_bool a + of_bool b + of_bool c + of_bool d :: int)"
    "(of_bool a + of_bool b + of_bool c + of_bool d :: int) \<le> 4" for a b c d
    by (simp_all add: of_bool_def)
  show ?thesis
    unfolding report_fields list_ex_iff [symmetric]
    using count bounds by blast
qed

theorem check_password_strength_report_witness:
  "has_lowercase (fst (check_password_strength ''abc123'' tape0))
   \<and> \<not> has_uppercase (fst (check_password_strength ''abc123'' tape0))
   \<and> has_digits (fst (check_password_strength ''abc123'' tape0))
   \<and> \<not> has_symbols (fst (check_password_strength ''abc123'' tape0))
   \<and> score (fst (check_password_strength ''abc123'' tape0)) = 2
   \<and> length_field (fst (check_password_strength ''abc123'' tape0)) = 6"
  using check_password_strength_report [of "''abc123''" tape0]
  by (simp add: islower_def isupper_def isdigit_def)

text \<open>
  C7. On \<^verbatim>\<open>abc123\<close> the report has score 2, the flags lower and digit only, the
  label Fair and length 6; on \<^verbatim>\<open>Ab1!\<close> score 4, label Strong, length 4; on the
  empty string score 0, label Very Weak, length 0. The labels of the scores 0 to 4 are
  Very Weak, Weak, Fair, Good, Strong.
\<close>

theorem check_password_strength_examples:
  "fst (check_password_strength ''abc123'' g)
     = \<lparr>score = 2, strength = ''Fair'', length_field = 6, has_lowercase = True,
        has_uppercase = False, has_digits = True, has_symbols = False\<rparr>
   \<and> fst (check_password_strength ''Ab1!'' g)
     = \<lparr>score = 4, strength = ''Strong'', length_field = 4, has_lowercase = True,
        has_uppercase = True, has_digits = True, has_symbols = True\<rparr>
   \<and> fst (check_password_strength [] g)
     = \<lparr>score = 0, strength = ''Very Weak'', length_field = 0, has_lowercase = False,
        has_uppercase = False, has_digits = False, has_symbols = False\<rparr>
   \<and> map (\<lambda>k. dict_get strength_levels k ''Very Weak'') [0, 1, 2, 3, 4]
     = [''Very Weak'', ''Weak'', ''Fair'', ''Good'', ''Strong'']
   \<and> strength (fst (check_password_strength s g))
     = dict_get strength_levels (score (fst (check_password_strength s g))) ''Very Weak''"
  by (simp add: check_password_strength_def islower_def isupper_def isdigit_def
      strength_levels_def dict_get_def Let_def)

text \<open>
  C8. The report depends on the string alone: it is the same whatever the state of the
  random generator, the call leaves that state as it found it, and so a second call on
  the same string, made right after the first or after a password has been generated
  in between, returns the same report.
\<close>

theorem check_password_strength_pure:
  "fst (check_password_strength s g) = fst (check_password_strength s g')
   \<and> snd (check_password_strength s g) = g
   \<and> fst (check_password_strength s (snd (check_password_strength s g)))
       = fst (check_password_strength s g)
   \<and> fst (check_password_strength s
            (snd (generate_password len use_uppercase use_lowercase use_digits use_symbols g)))
       = fst (check_password_strength s g)"
  by (simp add: check_password_strength_def Let_def del: set_simps)

end
